theory Spec2Isabelle
  imports Complex_Main "HOL-Library.Word"
begin

section \<open>Phase functions: the Henyey-Greenstein kernel and the two-way blend\<close>

text \<open>
  The development embeds the scalar instantiation of the two plugins \<^verbatim>\<open>hg.cpp\<close> and
  \<^verbatim>\<open>blendphase.cpp\<close>: \<^verbatim>\<open>Float\<close> is one number and \<^verbatim>\<open>Mask\<close> is one boolean, which
  \<^verbatim>\<open>MI_MASKED_FUNCTION\<close> sets to true, so that \<^verbatim>\<open>dr::any_or<true>(m)\<close> is \<open>m\<close> and
  \<^verbatim>\<open>dr::masked(x, m) = v\<close> assigns exactly when \<open>m\<close> holds.

  \<^verbatim>\<open>Float\<close> is idealised as \<^typ>\<open>real\<close>: rounding, infinities and NaN are outside the model.
  Division is the division of the reals, and HOL's \<open>x / 0 = 0\<close> stands where the
  machine would produce an infinity or a NaN; the divisors of the blend are therefore
  exposed separately by \<open>sample_divisors\<close> below. Where the rounding of the machine
  decides a property, as for the base of the Henyey-Greenstein denominator, the
  computation is given a second time with every operation rounded (\<open>eval_hg_fp\<close>).
\<close>

subsection \<open>Scalars, vectors, flags\<close>

type_synonym Float = real
type_synonym Vector3f = "real \<times> real \<times> real"
type_synonym Point2f = "real \<times> real"

definition Point2f_x :: "Point2f \<Rightarrow> Float" where
  "Point2f_x q = fst q"

definition Point2f_y :: "Point2f \<Rightarrow> Float" where
  "Point2f_y q = snd q"

fun dot :: "Vector3f \<Rightarrow> Vector3f \<Rightarrow> Float" where
  "dot (a1, a2, a3) (b1, b2, b3) = a1 * b1 + a2 * b2 + a3 * b3"

definition Vector3f_z :: "Vector3f \<Rightarrow> Float" where
  "Vector3f_z v = snd (snd v)"

text \<open>\<^verbatim>\<open>dr::clamp(value, min, max)\<close> is \<^verbatim>\<open>maximum(minimum(value, max), min)\<close>.\<close>

definition clamp :: "Float \<Rightarrow> Float \<Rightarrow> Float \<Rightarrow> Float" where
  "clamp v lo hi = max (min v hi) lo"

text \<open>\<^verbatim>\<open>dr::safe_sqrt\<close>: the square root of the argument clamped at zero from below.\<close>

definition safe_sqrt :: "Float \<Rightarrow> Float" where
  "safe_sqrt v = sqrt (max v 0)"

text \<open>\<^verbatim>\<open>dr::sincos\<close> returns the sine and the cosine, in this order.\<close>

definition sincos :: "Float \<Rightarrow> Float \<times> Float" where
  "sincos a = (sin a, cos a)"

definition InvFourPi :: Float where
  "InvFourPi = 1 / (4 * pi)"

datatype PhaseFunctionFlags = Isotropic | Anisotropic | Microflake

text \<open>A flag word is a set of flags; \<^verbatim>\<open>|\<close> on flag words is the union.\<close>

type_synonym flag_set = "PhaseFunctionFlags set"

subsection \<open>The interface consumed from the renderer\<close>

text \<open>
  The context carries the component selector, an unsigned 32-bit integer whose value
  \<^verbatim>\<open>(uint32_t) -1\<close> means that no component is selected. It is the one member of
  the context that the two plugins read.
\<close>

record PhaseFunctionContext =
  component :: "32 word"

text \<open>
  Of the medium interaction the two plugins read the incoming direction \<^verbatim>\<open>wi\<close> and the
  transform \<^verbatim>\<open>to_world\<close> of a local direction; both are taken as given.
\<close>

record MediumInteraction3f =
  wi :: Vector3f
  to_world :: "Vector3f \<Rightarrow> Vector3f"

text \<open>A volume is read through \<^verbatim>\<open>eval_1\<close>, a scalar at the interaction.\<close>

type_synonym Volume = "MediumInteraction3f \<Rightarrow> Float"

text \<open>
  A phase function as the blend sees one through \<^verbatim>\<open>ref<Base>\<close>: the members
  \<^verbatim>\<open>m_flags\<close> and \<^verbatim>\<open>m_components\<close> of the base class and the two virtual methods.
\<close>

record PhaseFunction =
  m_flags :: flag_set
  m_components :: "flag_set list"
  sample :: "PhaseFunctionContext \<Rightarrow> MediumInteraction3f \<Rightarrow> Float \<Rightarrow> Point2f
               \<Rightarrow> Vector3f \<times> Float"
  eval :: "PhaseFunctionContext \<Rightarrow> MediumInteraction3f \<Rightarrow> Vector3f \<Rightarrow> Float"

text \<open>
  Modelled from the spec: the accessors of the base class \<^verbatim>\<open>PhaseFunction\<close> are declared
  outside the two plugins; the spec fixes \<^verbatim>\<open>component_count() == components.size()\<close>,
  and \<^verbatim>\<open>flags(j)\<close> reads the entry \<open>j\<close> of the component list.
\<close>

definition component_count :: "PhaseFunction \<Rightarrow> nat" where
  "component_count ph = length (m_components ph)"

definition flags :: "PhaseFunction \<Rightarrow> flag_set" where
  "flags ph = m_flags ph"

definition flags_at :: "PhaseFunction \<Rightarrow> nat \<Rightarrow> flag_set" where
  "flags_at ph j = m_components ph ! j"

subsection \<open>\<^verbatim>\<open>HGPhaseFunction\<close>\<close>

definition eval_hg :: "Float \<Rightarrow> Float \<Rightarrow> Float" where
  "eval_hg m_g cos_theta =
     (let temp = 1 + m_g * m_g + 2 * m_g * cos_theta
      in InvFourPi * (1 - m_g * m_g) / (temp * sqrt temp))"

text \<open>
  The threshold \<^verbatim>\<open>dr::Epsilon<ScalarFloat>\<close> is a constant of the array library; it is the
  first parameter \<open>eps\<close> of the sampling routine. The context and \<^verbatim>\<open>sample1\<close> are unnamed
  parameters in the source.
\<close>

definition HGPhaseFunction_sample ::
  "Float \<Rightarrow> Float \<Rightarrow> PhaseFunctionContext \<Rightarrow> MediumInteraction3f \<Rightarrow> Float \<Rightarrow> Point2f
     \<Rightarrow> Vector3f \<times> Float" where
  "HGPhaseFunction_sample eps m_g ctx mi sample1 sample2 =
     (let cos_theta =
            (if \<bar>m_g\<bar> < eps then 1 - 2 * Point2f_x sample2
             else (let sqr_term = (1 - m_g * m_g) / (1 - m_g + 2 * m_g * Point2f_x sample2)
                   in (1 + m_g * m_g - sqr_term * sqr_term) / (2 * m_g)));
          sin_theta = safe_sqrt (1 - cos_theta * cos_theta);
          (sin_phi, cos_phi) = sincos (2 * pi * Point2f_y sample2);
          wo = (sin_theta * cos_phi, sin_theta * sin_phi, - cos_theta);
          wo = to_world mi wo;
          pdf = eval_hg m_g (- cos_theta)
      in (wo, pdf))"

definition HGPhaseFunction_eval ::
  "Float \<Rightarrow> PhaseFunctionContext \<Rightarrow> MediumInteraction3f \<Rightarrow> Vector3f \<Rightarrow> Float" where
  "HGPhaseFunction_eval m_g ctx mi wo = eval_hg m_g (dot wo (wi mi))"

subsection \<open>Machine arithmetic\<close>

text \<open>
  \<^verbatim>\<open>ScalarFloat\<close> is IEEE 754 binary32 in the single-precision variants and binary64 in the
  double-precision ones: an operation returns the representable number nearest to its
  exact result, a tie going to the even significand. \<open>fp_round p\<close> is this rounding to
  \<open>p\<close> significant bits, for results in the normal range (no overflow, no subnormal
  numbers).
\<close>

definition round_half_even :: "real \<Rightarrow> int" where
  "round_half_even y =
     (let f = \<lfloor>y\<rfloor>
      in if y - of_int f < 1 / 2 then f
         else if 1 / 2 < y - of_int f then f + 1
         else if even f then f else f + 1)"

definition fp_round :: "nat \<Rightarrow> real \<Rightarrow> real" where
  "fp_round p v =
     (if v = 0 then 0
      else (let e = \<lfloor>log 2 \<bar>v\<bar>\<rfloor> - (int p - 1)
            in of_int (round_half_even (v / 2 powi e)) * 2 powi e))"

definition binary32 :: "real \<Rightarrow> real" where
  "binary32 v = fp_round 24 v"

definition binary64 :: "real \<Rightarrow> real" where
  "binary64 v = fp_round 53 v"

text \<open>
  \<^verbatim>\<open>eval_hg\<close> once more, operation by operation in the order of the source, the result of
  each rounded by \<open>rnd\<close>. \<open>None\<close> stands for a result that is no number: the square root
  of a negative base, or the division by a divisor that is zero (an infinity).
\<close>

definition eval_hg_fp :: "(Float \<Rightarrow> Float) \<Rightarrow> Float \<Rightarrow> Float \<Rightarrow> Float option" where
  "eval_hg_fp rnd m_g cos_theta =
     (let temp = rnd (rnd (1 + rnd (m_g * m_g)) + rnd (rnd (2 * m_g) * cos_theta));
          divisor = rnd (temp * rnd (sqrt temp))
      in if temp < 0 \<or> divisor = 0 then None
         else Some (rnd (rnd (rnd InvFourPi * rnd (1 - rnd (m_g * m_g))) / divisor)))"

subsection \<open>\<^verbatim>\<open>BlendPhaseFunction\<close>\<close>

definition eval_weight :: "Volume \<Rightarrow> MediumInteraction3f \<Rightarrow> Float" where
  "eval_weight m_weight mi = clamp (m_weight mi) 0 1"

text \<open>
  The locals \<^verbatim>\<open>wo\<close> and \<^verbatim>\<open>pdf\<close> of the unrestricted path are declared without a value;
  the model starts them at zero. Over the reals one of the two masks always holds, so
  the start value is never returned (lemma \<open>sample_masks_cover\<close>).
\<close>

definition uninitialized :: "Vector3f \<times> Float" where
  "uninitialized = ((0, 0, 0), 0)"

definition sample_masks :: "Float \<Rightarrow> Float \<Rightarrow> bool \<times> bool" where
  "sample_masks sample1 weight = (sample1 > weight, sample1 \<le> weight)"

definition BlendPhaseFunction_sample ::
  "Volume \<Rightarrow> PhaseFunction \<Rightarrow> PhaseFunction \<Rightarrow> PhaseFunctionContext \<Rightarrow> MediumInteraction3f
     \<Rightarrow> Float \<Rightarrow> Point2f \<Rightarrow> Vector3f \<times> Float" where
  "BlendPhaseFunction_sample m_weight nested0 nested1 ctx mi sample1 sample2 =
     (let weight = eval_weight m_weight mi
      in if component ctx \<noteq> - 1 then
           (let sample_first = unat (component ctx) < component_count nested0;
                ctx2 = (if \<not> sample_first
                        then ctx\<lparr>component := component ctx - of_nat (component_count nested0)\<rparr>
                        else ctx);
                weight = (if \<not> sample_first then weight else 1 - weight);
                (wo, pdf) = sample (if sample_first then nested0 else nested1)
                                   ctx2 mi sample1 sample2;
                pdf = pdf * weight
            in (wo, pdf))
         else
           (let (m0, m1) = sample_masks sample1 weight;
                r = uninitialized;
                r = (if m0 then sample nested0 ctx mi ((sample1 - weight) / (1 - weight)) sample2
                     else r);
                r = (if m1 then sample nested1 ctx mi (sample1 / weight) sample2
                     else r)
            in r))"

text \<open>
  The divisors of the divisions that the unrestricted path of \<^verbatim>\<open>sample\<close> carries out, in
  the order of execution: \<open>1 - weight\<close> under the mask \<open>m0\<close>, \<open>weight\<close> under \<open>m1\<close>.
\<close>

definition sample_divisors :: "Volume \<Rightarrow> MediumInteraction3f \<Rightarrow> Float \<Rightarrow> Float list" where
  "sample_divisors m_weight mi sample1 =
     (let weight = eval_weight m_weight mi;
          (m0, m1) = sample_masks sample1 weight
      in (if m0 then [1 - weight] else []) @ (if m1 then [weight] else []))"

definition BlendPhaseFunction_eval ::
  "Volume \<Rightarrow> PhaseFunction \<Rightarrow> PhaseFunction \<Rightarrow> PhaseFunctionContext \<Rightarrow> MediumInteraction3f
     \<Rightarrow> Vector3f \<Rightarrow> Float" where
  "BlendPhaseFunction_eval m_weight nested0 nested1 ctx mi wo =
     (let weight = eval_weight m_weight mi
      in if component ctx \<noteq> - 1 then
           (let sample_first = unat (component ctx) < component_count nested0;
                ctx2 = (if \<not> sample_first
                        then ctx\<lparr>component := component ctx - of_nat (component_count nested0)\<rparr>
                        else ctx);
                weight = (if \<not> sample_first then weight else 1 - weight)
            in weight * eval (if sample_first then nested0 else nested1) ctx2 mi wo)
         else eval nested0 ctx mi wo * (1 - weight) + eval nested1 ctx mi wo * weight)"

subsection \<open>Objects and their construction\<close>

text \<open>
  The object that a constructor leaves behind, as the renderer holds it: the base members
  and the two methods closed over the fields of the class. \<^verbatim>\<open>HGPhaseFunction\<close> sets the
  flag \<^verbatim>\<open>Anisotropic\<close> and pushes it as its only component.
\<close>

definition HGPhaseFunction_object :: "Float \<Rightarrow> Float \<Rightarrow> PhaseFunction" where
  "HGPhaseFunction_object eps m_g =
     (let m_flags = {Anisotropic};
          m_components = [] @ [m_flags]
      in \<lparr>m_flags = m_flags, m_components = m_components,
          sample = HGPhaseFunction_sample eps m_g, eval = HGPhaseFunction_eval m_g\<rparr>)"

text \<open>
  The tail of the constructor of \<^verbatim>\<open>BlendPhaseFunction\<close>: the component list is cleared
  and refilled with \<^verbatim>\<open>flags(j)\<close> of child 0 and then of child 1, for every \<open>j\<close> below the
  child's component count; the flags are the union of the children's.
\<close>

definition BlendPhaseFunction_object ::
  "Volume \<Rightarrow> PhaseFunction \<Rightarrow> PhaseFunction \<Rightarrow> PhaseFunction" where
  "BlendPhaseFunction_object m_weight nested0 nested1 =
     \<lparr>m_flags = flags nested0 \<union> flags nested1,
      m_components =
        concat (map (\<lambda>ph. map (flags_at ph) [0..<component_count ph]) [nested0, nested1]),
      sample = BlendPhaseFunction_sample m_weight nested0 nested1,
      eval = BlendPhaseFunction_eval m_weight nested0 nested1\<rparr>"

text \<open>
  \<^verbatim>\<open>Throw\<close> raises an exception with a message; so does \<^verbatim>\<open>Log\<close> at level \<^verbatim>\<open>Error\<close>.
  Modelled from the spec: the macro \<^verbatim>\<open>Log\<close> is declared outside the two plugins; the
  spec counts an asymmetry parameter outside (-1, 1) among the fatal construction
  failures, so \<^verbatim>\<open>Log(Error, ...)\<close> ends the constructor as \<^verbatim>\<open>Throw\<close> does.
\<close>

datatype error = Exception string

text \<open>
  Modelled from the spec: the class \<^verbatim>\<open>Properties\<close> is declared outside the two plugins.
  A property list holds named entries, each a number or a nested object; a nested object
  is a phase function or another plugin (here: a volume). \<^verbatim>\<open>objects\<close> lists the nested
  objects in order; \<^verbatim>\<open>get\<close> with a default returns the default for a missing name;
  \<^verbatim>\<open>volume\<close> without a default fails for a missing name (spec: construction fails if the
  external weight source is absent) and turns a number into a constant volume.
\<close>

datatype Object = PhaseObject PhaseFunction | VolumeObject Volume

datatype Property = FloatProperty Float | ObjectProperty Object

type_synonym Properties = "(string \<times> Property) list"

fun Properties_objects :: "Properties \<Rightarrow> (string \<times> Object) list" where
  "Properties_objects [] = []"
| "Properties_objects ((name, ObjectProperty obj) # rest) = (name, obj) # Properties_objects rest"
| "Properties_objects ((name, FloatProperty v) # rest) = Properties_objects rest"

definition Properties_get_float :: "Properties \<Rightarrow> string \<Rightarrow> Float \<Rightarrow> error + Float" where
  "Properties_get_float props name def_val =
     (case map_of props name of
        None \<Rightarrow> Inr def_val
      | Some (FloatProperty v) \<Rightarrow> Inr v
      | Some (ObjectProperty obj) \<Rightarrow> Inl (Exception ''Property has the wrong type''))"

definition Properties_volume :: "Properties \<Rightarrow> string \<Rightarrow> error + Volume" where
  "Properties_volume props name =
     (case map_of props name of
        None \<Rightarrow> Inl (Exception ''Property has not been specified!'')
      | Some (FloatProperty v) \<Rightarrow> Inr (\<lambda>mi. v)
      | Some (ObjectProperty (VolumeObject vol)) \<Rightarrow> Inr vol
      | Some (ObjectProperty (PhaseObject ph)) \<Rightarrow> Inl (Exception ''Property has the wrong type''))"

text \<open>\<^verbatim>\<open>dynamic_cast<Base *>\<close>: the phase function behind an object, if it is one.\<close>

fun dynamic_cast_phase :: "Object \<Rightarrow> PhaseFunction option" where
  "dynamic_cast_phase (PhaseObject ph) = Some ph"
| "dynamic_cast_phase (VolumeObject vol) = None"

definition HGPhaseFunction_ctor :: "Float \<Rightarrow> Properties \<Rightarrow> error + PhaseFunction" where
  "HGPhaseFunction_ctor eps props =
     (case Properties_get_float props ''g'' (8 / 10) of
        Inl e \<Rightarrow> Inl e
      | Inr m_g \<Rightarrow>
          if m_g \<ge> 1 \<or> m_g \<le> - 1
          then Inl (Exception ''The asymmetry parameter must lie in the interval (-1, 1)!'')
          else Inr (HGPhaseFunction_object eps m_g))"

text \<open>
  The first loop of the constructor of the blend, over \<^verbatim>\<open>props.objects(false)\<close>: the state
  is \<^verbatim>\<open>phase_index\<close> and the array \<^verbatim>\<open>m_nested_phase\<close> of two references, null at first.
\<close>

fun collect_phases ::
  "(string \<times> Object) list \<Rightarrow> nat \<Rightarrow> PhaseFunction option list
     \<Rightarrow> error + nat \<times> PhaseFunction option list" where
  "collect_phases [] phase_index m_nested_phase = Inr (phase_index, m_nested_phase)"
| "collect_phases ((name, obj) # rest) phase_index m_nested_phase =
     (case dynamic_cast_phase obj of
        Some phase \<Rightarrow>
          if phase_index = 2
          then Inl (Exception
                 ''BlendPhase: Cannot specify more than two child phase functions'')
          else collect_phases rest (phase_index + 1) (m_nested_phase[phase_index := Some phase])
      | None \<Rightarrow> collect_phases rest phase_index m_nested_phase)"

definition BlendPhaseFunction_ctor :: "Properties \<Rightarrow> error + PhaseFunction" where
  "BlendPhaseFunction_ctor props =
     (case collect_phases (Properties_objects props) 0 [None, None] of
        Inl e \<Rightarrow> Inl e
      | Inr (phase_index, m_nested_phase) \<Rightarrow>
          (case Properties_volume props ''weight'' of
             Inl e \<Rightarrow> Inl e
           | Inr m_weight \<Rightarrow>
               if phase_index \<noteq> 2
               then Inl (Exception ''BlendPhase: Two child phase functions must be specified!'')
               else (case m_nested_phase of
                       [Some nested0, Some nested1] \<Rightarrow>
                         Inr (BlendPhaseFunction_object m_weight nested0 nested1)
                     | _ \<Rightarrow> Inl (Exception ''null reference''))))"

subsection \<open>Nested plugins\<close>

text \<open>
  The phase functions that the two plugins can build: a Henyey-Greenstein kernel with its
  parameter, or a blend of two nested phase functions under a weight volume, as a scene
  description nests them. \<open>instantiate\<close> is the object a description stands for.
\<close>

datatype phase_plugin = Hg Float | Blendphase Volume phase_plugin phase_plugin

fun instantiate :: "Float \<Rightarrow> phase_plugin \<Rightarrow> PhaseFunction" where
  "instantiate eps (Hg g) = HGPhaseFunction_object eps g"
| "instantiate eps (Blendphase weight t0 t1) =
     BlendPhaseFunction_object weight (instantiate eps t0) (instantiate eps t1)"

text \<open>The child phase functions that a property list supplies to the blend.\<close>

definition supplied_phases :: "Properties \<Rightarrow> PhaseFunction list" where
  "supplied_phases props = List.map_filter (dynamic_cast_phase \<circ> snd) (Properties_objects props)"

subsection \<open>Example inputs\<close>

abbreviation unrestricted :: PhaseFunctionContext where
  "unrestricted \<equiv> \<lparr>component = - 1\<rparr>"

text \<open>An interaction whose frame is the standard basis, with \<^verbatim>\<open>wi\<close> along its third axis.\<close>

abbreviation mi_z :: MediumInteraction3f where
  "mi_z \<equiv> \<lparr>wi = (0, 0, 1), to_world = (\<lambda>v. v)\<rparr>"

abbreviation hg_fwd :: PhaseFunction where
  "hg_fwd \<equiv> HGPhaseFunction_object (1 / 1000) (1 / 2)"

abbreviation hg_bwd :: PhaseFunction where
  "hg_bwd \<equiv> HGPhaseFunction_object (1 / 1000) (- 1 / 2)"

section \<open>Properties\<close>

subsection \<open>Auxiliary facts\<close>

lemma eval_weight_range: "0 \<le> eval_weight m_weight mi \<and> eval_weight m_weight mi \<le> 1"
  by (simp add: eval_weight_def clamp_def)

lemma sample_masks_cover: "fst (sample_masks sample1 weight) \<noteq> snd (sample_masks sample1 weight)"
  by (auto simp: sample_masks_def)

text \<open>Rebasing a selector that is not below the first child's count does not wrap.\<close>

lemma unat_rebase:
  fixes k :: "32 word"
  assumes "n \<le> unat k"
  shows "unat (k - of_nat n) = unat k - n"
proof -
  have n: "unat (of_nat n :: 32 word) = n"
    using assms by (rule le_unat_uoi)
  then have "(of_nat n :: 32 word) \<le> k"
    using assms by (simp add: word_le_nat_alt)
  then show ?thesis
    using n by (simp add: unat_sub)
qed

text \<open>An index below \<open>2 ^ 32 - 1\<close> is a selector of its own value, and not the sentinel.\<close>

lemma selector_of_index:
  assumes "k < 2 ^ 32 - 1"
  shows "(of_nat k :: 32 word) \<noteq> - 1" and "unat (of_nat k :: 32 word) = k"
proof -
  show u: "unat (of_nat k :: 32 word) = k"
    using assms by (simp add: unat_of_nat)
  have "unat (- 1 :: 32 word) = 2 ^ 32 - 1"
    by (simp add: unsigned_minus_1_eq_mask mask_eq_exp_minus_1)
  with u assms show "(of_nat k :: 32 word) \<noteq> - 1"
    by (metis nat_neq_iff)
qed

lemma HG_component_count: "component_count (HGPhaseFunction_object eps g) = 1"
  by (simp add: component_count_def HGPhaseFunction_object_def Let_def)

text \<open>The two loops of the constructor concatenate the children's component lists.\<close>

lemma Blend_components:
  "m_components (BlendPhaseFunction_object w n0 n1) = m_components n0 @ m_components n1"
proof -
  have "map (flags_at ph) [0..<component_count ph] = m_components ph" for ph
    unfolding component_count_def flags_at_def by (rule map_nth)
  then show ?thesis
    by (simp add: BlendPhaseFunction_object_def)
qed

lemma Blend_component_count:
  "component_count (BlendPhaseFunction_object w n0 n1) = component_count n0 + component_count n1"
  by (simp add: component_count_def Blend_components)

subsection \<open>The blend without a component selector\<close>

text \<open>
  C1. Without a component selector, \<^verbatim>\<open>sample\<close> of the blend goes to child 0 when
  \<open>sample1 > w\<close>, handing it \<open>(sample1 - w) / (1 - w)\<close>, and to child 1 when
  \<open>sample1 \<le> w\<close>, handing it \<open>sample1 / w\<close>; \<open>w\<close> is the clamped weight, and the pair
  that the chosen child returns is the result, with its density as the child gave it.
  The children are arbitrary, and so is \<open>sample1\<close>.
\<close>

theorem blend_sample_unrestricted:
  assumes "component ctx = - 1"
  shows "BlendPhaseFunction_sample m_weight nested0 nested1 ctx mi sample1 sample2 =
           (if sample1 > eval_weight m_weight mi
            then sample nested0 ctx mi
                   ((sample1 - eval_weight m_weight mi) / (1 - eval_weight m_weight mi)) sample2
            else sample nested1 ctx mi (sample1 / eval_weight m_weight mi) sample2)
         \<and> 0 \<le> eval_weight m_weight mi \<and> eval_weight m_weight mi \<le> 1"
  using assms eval_weight_range [of m_weight mi]
  by (simp add: BlendPhaseFunction_sample_def sample_masks_def Let_def)

theorem blend_sample_unrestricted_witness:
  "component unrestricted = - 1
   \<and> BlendPhaseFunction_sample (\<lambda>mi. 1 / 4) hg_fwd hg_bwd unrestricted mi_z (1 / 2) (1 / 2, 0)
     = sample hg_fwd unrestricted mi_z (1 / 3) (1 / 2, 0)
   \<and> BlendPhaseFunction_sample (\<lambda>mi. 1 / 4) hg_fwd hg_bwd unrestricted mi_z (1 / 8) (1 / 2, 0)
     = sample hg_bwd unrestricted mi_z (1 / 2) (1 / 2, 0)"
  using blend_sample_unrestricted [of unrestricted "\<lambda>mi. 1 / 4" hg_fwd hg_bwd mi_z "1 / 2"
      "(1 / 2, 0)"]
    blend_sample_unrestricted [of unrestricted "\<lambda>mi. 1 / 4" hg_fwd hg_bwd mi_z "1 / 8"
      "(1 / 2, 0)"]
  by (simp add: eval_weight_def clamp_def)

text \<open>
  C2. Without a component selector, \<^verbatim>\<open>eval\<close> of the blend is
  \<open>(1 - w) * eval\<close> of child 0 plus \<open>w * eval\<close> of child 1 at the same direction, where
  \<open>w\<close> is the value of the weight volume at the interaction clamped into [0, 1].
\<close>

theorem blend_eval_unrestricted:
  assumes "component ctx = - 1"
  shows "BlendPhaseFunction_eval m_weight nested0 nested1 ctx mi wo =
           (1 - eval_weight m_weight mi) * eval nested0 ctx mi wo
             + eval_weight m_weight mi * eval nested1 ctx mi wo
         \<and> eval_weight m_weight mi = max (min (m_weight mi) 1) 0
         \<and> 0 \<le> eval_weight m_weight mi \<and> eval_weight m_weight mi \<le> 1"
  using assms
  by (simp add: BlendPhaseFunction_eval_def eval_weight_def clamp_def Let_def mult.commute)

theorem blend_eval_unrestricted_witness:
  "component unrestricted = - 1
   \<and> BlendPhaseFunction_eval (\<lambda>mi. 7) hg_fwd (HGPhaseFunction_object (1 / 1000) 0)
        unrestricted mi_z (1, 0, 0)
     = InvFourPi
   \<and> eval_weight (\<lambda>mi. 7) mi_z = 1"
  using blend_eval_unrestricted [of unrestricted "\<lambda>mi. 7" hg_fwd
      "HGPhaseFunction_object (1 / 1000) 0" mi_z "(1, 0, 0)"]
  by (simp add: HGPhaseFunction_object_def HGPhaseFunction_eval_def eval_hg_def Let_def)

subsection \<open>The blend under a component selector\<close>

text \<open>
  C3. With a component selector \<open>k\<close> (any value but the sentinel): when \<open>k\<close> is below the
  component count of child 0, \<^verbatim>\<open>eval\<close> and \<^verbatim>\<open>sample\<close> of the blend call child 0 under
  the unchanged context and multiply the density by \<open>1 - w\<close>; otherwise they call
  child 1 under the context whose selector is \<open>k\<close> minus that count (a subtraction
  that does not wrap) and multiply the density by \<open>w\<close>. \<^verbatim>\<open>sample\<close> hands on its sample
  coordinates and returns the child's direction as it is.
\<close>

theorem blend_component_routing:
  assumes "component ctx \<noteq> - 1"
  shows "(unat (component ctx) < component_count nested0 \<longrightarrow>
            BlendPhaseFunction_eval m_weight nested0 nested1 ctx mi wo =
              (1 - eval_weight m_weight mi) * eval nested0 ctx mi wo
          \<and> BlendPhaseFunction_sample m_weight nested0 nested1 ctx mi sample1 sample2 =
              (fst (sample nested0 ctx mi sample1 sample2),
               snd (sample nested0 ctx mi sample1 sample2) * (1 - eval_weight m_weight mi)))
       \<and> (component_count nested0 \<le> unat (component ctx) \<longrightarrow>
            BlendPhaseFunction_eval m_weight nested0 nested1 ctx mi wo =
              eval_weight m_weight mi
                * eval nested1 (ctx\<lparr>component := component ctx - of_nat (component_count nested0)\<rparr>)
                    mi wo
          \<and> BlendPhaseFunction_sample m_weight nested0 nested1 ctx mi sample1 sample2 =
              (fst (sample nested1
                     (ctx\<lparr>component := component ctx - of_nat (component_count nested0)\<rparr>)
                     mi sample1 sample2),
               snd (sample nested1
                     (ctx\<lparr>component := component ctx - of_nat (component_count nested0)\<rparr>)
                     mi sample1 sample2) * eval_weight m_weight mi)
          \<and> unat (component ctx - of_nat (component_count nested0)) =
              unat (component ctx) - component_count nested0)"
  using assms
  by (simp add: BlendPhaseFunction_eval_def BlendPhaseFunction_sample_def Let_def
      split_beta unat_rebase)

theorem blend_component_routing_witness:
  "component \<lparr>component = 0\<rparr> \<noteq> - 1 \<and> component \<lparr>component = 1\<rparr> \<noteq> - 1
   \<and> unat (component \<lparr>component = 0\<rparr>) < component_count hg_fwd
   \<and> component_count hg_fwd \<le> unat (component \<lparr>component = 1\<rparr>)
   \<and> BlendPhaseFunction_eval (\<lambda>mi. 3 / 10) hg_fwd hg_bwd \<lparr>component = 0\<rparr> mi_z (1, 0, 0) =
       (1 - 3 / 10) * eval hg_fwd \<lparr>component = 0\<rparr> mi_z (1, 0, 0)
   \<and> BlendPhaseFunction_eval (\<lambda>mi. 3 / 10) hg_fwd hg_bwd \<lparr>component = 1\<rparr> mi_z (1, 0, 0) =
       3 / 10 * eval hg_bwd \<lparr>component = 0\<rparr> mi_z (1, 0, 0)
   \<and> BlendPhaseFunction_sample (\<lambda>mi. 3 / 10) hg_fwd hg_bwd \<lparr>component = 1\<rparr> mi_z
         (1 / 2) (1 / 2, 0) =
       (fst (sample hg_bwd \<lparr>component = 0\<rparr> mi_z (1 / 2) (1 / 2, 0)),
        snd (sample hg_bwd \<lparr>component = 0\<rparr> mi_z (1 / 2) (1 / 2, 0)) * (3 / 10))"
  using blend_component_routing [of "\<lparr>component = 0\<rparr>" hg_fwd "\<lambda>mi. 3 / 10" hg_bwd mi_z
      "(1, 0, 0)" "1 / 2" "(1 / 2, 0)"]
    blend_component_routing [of "\<lparr>component = 1\<rparr>" hg_fwd "\<lambda>mi. 3 / 10" hg_bwd mi_z
      "(1, 0, 0)" "1 / 2" "(1 / 2, 0)"]
  by (simp add: HG_component_count eval_weight_def clamp_def)

text \<open>
  The selectors below the first child's count reach child 0, the others child 1 with
  the index counted from its own first component.
\<close>

lemma Blend_eval_first:
  assumes "k < component_count n0" and "component_count n0 + component_count n1 < 2 ^ 32"
  shows "BlendPhaseFunction_eval w n0 n1 (ctx\<lparr>component := of_nat k\<rparr>) mi wo =
           (1 - eval_weight w mi) * eval n0 (ctx\<lparr>component := of_nat k\<rparr>) mi wo"
proof -
  have "k < 2 ^ 32 - 1" using assms by simp
  from selector_of_index [OF this] assms(1) show ?thesis
    by (simp add: BlendPhaseFunction_eval_def Let_def)
qed

lemma Blend_eval_second:
  assumes "j < component_count n1" and "component_count n0 + component_count n1 < 2 ^ 32"
  shows "BlendPhaseFunction_eval w n0 n1
           (ctx\<lparr>component := of_nat (j + component_count n0)\<rparr>) mi wo =
           eval_weight w mi * eval n1 (ctx\<lparr>component := of_nat j\<rparr>) mi wo"
proof -
  have "j + component_count n0 < 2 ^ 32 - 1" using assms by simp
  from selector_of_index [OF this] show ?thesis
    by (simp add: BlendPhaseFunction_eval_def Let_def)
qed

text \<open>
  For arbitrary children: the sum of the blend's \<^verbatim>\<open>eval\<close> over its selectors is the
  weighted sum of the children's sums over theirs.
\<close>

lemma Blend_restricted_sum:
  assumes "component_count n0 + component_count n1 < 2 ^ 32"
  shows "(\<Sum>k<component_count n0 + component_count n1.
            BlendPhaseFunction_eval w n0 n1 (ctx\<lparr>component := of_nat k\<rparr>) mi wo) =
         (1 - eval_weight w mi)
           * (\<Sum>k<component_count n0. eval n0 (ctx\<lparr>component := of_nat k\<rparr>) mi wo)
         + eval_weight w mi
           * (\<Sum>j<component_count n1. eval n1 (ctx\<lparr>component := of_nat j\<rparr>) mi wo)"
proof -
  let ?a = "component_count n0" and ?b = "component_count n1"
  let ?f = "\<lambda>k. BlendPhaseFunction_eval w n0 n1 (ctx\<lparr>component := of_nat k\<rparr>) mi wo"
  have split: "sum ?f {..<?a + ?b} = sum ?f {0..<?a} + sum ?f {0 + ?a..<?b + ?a}"
    by (simp add: lessThan_atLeast0 sum.atLeastLessThan_concat add.commute)
  have first: "sum ?f {0..<?a} =
      (1 - eval_weight w mi) * (\<Sum>k<?a. eval n0 (ctx\<lparr>component := of_nat k\<rparr>) mi wo)"
    using assms by (simp add: Blend_eval_first sum_distrib_left lessThan_atLeast0)
  have "sum ?f {0 + ?a..<?b + ?a} = (\<Sum>j = 0..<?b. ?f (j + ?a))"
    by (rule sum.shift_bounds_nat_ivl)
  also have "\<dots> =
      (\<Sum>j = 0..<?b. eval_weight w mi * eval n1 (ctx\<lparr>component := of_nat j\<rparr>) mi wo)"
  proof (rule sum.cong [OF refl])
    fix j assume "j \<in> {0..<?b}"
    then have "j < ?b" by simp
    from Blend_eval_second [OF this assms]
    show "?f (j + ?a) = eval_weight w mi * eval n1 (ctx\<lparr>component := of_nat j\<rparr>) mi wo" .
  qed
  also have "\<dots> =
      eval_weight w mi * (\<Sum>j<?b. eval n1 (ctx\<lparr>component := of_nat j\<rparr>) mi wo)"
    by (simp add: sum_distrib_left lessThan_atLeast0)
  finally show ?thesis
    using split first by simp
qed

lemma restricted_sum_instantiate:
  "component_count (instantiate eps t) < 2 ^ 32 \<Longrightarrow>
   (\<Sum>k<component_count (instantiate eps t).
      eval (instantiate eps t) (ctx\<lparr>component := of_nat k\<rparr>) mi wo) =
   eval (instantiate eps t) (ctx\<lparr>component := - 1\<rparr>) mi wo"
proof (induction t arbitrary: ctx)
  case (Hg g)
  show ?case
    by (simp add: HG_component_count)
       (simp add: HGPhaseFunction_object_def Let_def HGPhaseFunction_eval_def)
next
  case (Blendphase w t0 t1)
  let ?n0 = "instantiate eps t0" and ?n1 = "instantiate eps t1"
  from Blendphase.prems have bound: "component_count ?n0 + component_count ?n1 < 2 ^ 32"
    by (simp add: Blend_component_count)
  then have b0: "component_count ?n0 < 2 ^ 32" and b1: "component_count ?n1 < 2 ^ 32"
    by simp_all
  have ev: "eval (BlendPhaseFunction_object w ?n0 ?n1) = BlendPhaseFunction_eval w ?n0 ?n1"
    by (simp add: BlendPhaseFunction_object_def)
  have "(\<Sum>k<component_count ?n0 + component_count ?n1.
            BlendPhaseFunction_eval w ?n0 ?n1 (ctx\<lparr>component := of_nat k\<rparr>) mi wo) =
        (1 - eval_weight w mi) * eval ?n0 (ctx\<lparr>component := - 1\<rparr>) mi wo
        + eval_weight w mi * eval ?n1 (ctx\<lparr>component := - 1\<rparr>) mi wo"
    using Blend_restricted_sum [OF bound] Blendphase.IH(1) [OF b0] Blendphase.IH(2) [OF b1]
    by simp
  then show ?case
    by (simp add: ev Blend_component_count BlendPhaseFunction_eval_def Let_def mult.commute)
qed

text \<open>
  C4. For every blend of nested Henyey-Greenstein kernels and blends whose components a
  32-bit selector can address (fewer than \<open>2 ^ 32\<close> of them, the value \<open>2 ^ 32 - 1\<close>
  being the sentinel), every interaction and every direction: the sum of \<^verbatim>\<open>eval\<close> over
  the selectors \<open>0, ..., component_count - 1\<close> equals \<^verbatim>\<open>eval\<close> without a selector.
\<close>

theorem blend_component_sum:
  assumes "component_count (instantiate eps (Blendphase w t0 t1)) < 2 ^ 32"
  shows "(\<Sum>k<component_count (instantiate eps (Blendphase w t0 t1)).
            eval (instantiate eps (Blendphase w t0 t1)) (ctx\<lparr>component := of_nat k\<rparr>) mi wo) =
         eval (instantiate eps (Blendphase w t0 t1)) (ctx\<lparr>component := - 1\<rparr>) mi wo"
  using assms by (rule restricted_sum_instantiate)

theorem blend_component_sum_witness:
  "component_count (instantiate (1 / 1000) (Blendphase (\<lambda>mi. 3 / 10) (Hg (1 / 2)) (Hg (- 1 / 2))))
     < 2 ^ 32
   \<and> component_count (instantiate (1 / 1000) (Blendphase (\<lambda>mi. 3 / 10) (Hg (1 / 2)) (Hg (- 1 / 2))))
     = 2
   \<and> eval (instantiate (1 / 1000) (Blendphase (\<lambda>mi. 3 / 10) (Hg (1 / 2)) (Hg (- 1 / 2))))
        \<lparr>component = 0\<rparr> mi_z (1, 0, 0)
     + eval (instantiate (1 / 1000) (Blendphase (\<lambda>mi. 3 / 10) (Hg (1 / 2)) (Hg (- 1 / 2))))
        \<lparr>component = 1\<rparr> mi_z (1, 0, 0)
     = eval (instantiate (1 / 1000) (Blendphase (\<lambda>mi. 3 / 10) (Hg (1 / 2)) (Hg (- 1 / 2))))
        \<lparr>component = - 1\<rparr> mi_z (1, 0, 0)"
proof -
  let ?ph = "instantiate (1 / 1000) (Blendphase (\<lambda>mi. 3 / 10) (Hg (1 / 2)) (Hg (- 1 / 2)))"
  have cc: "component_count ?ph = 2"
    by (simp add: Blend_component_count HG_component_count)
  have two: "{..<2::nat} = {0, 1}"
    by auto
  from blend_component_sum [of "1 / 1000" "\<lambda>mi. 3 / 10" "Hg (1 / 2)" "Hg (- 1 / 2)"
      "\<lparr>component = 0\<rparr>" mi_z "(1, 0, 0)"] cc two
  show ?thesis
    by simp
qed

subsection \<open>Degenerate weights\<close>

text \<open>
  What holds of the degenerate weights: under weight 1 every \<open>sample1\<close> below 1 goes to
  child 1 unchanged, and under weight 0 every positive \<open>sample1\<close> goes to child 0
  unchanged; the one division carried out has the divisor 1.
\<close>

lemma blend_sample_degenerate:
  assumes "component ctx = - 1"
  shows "eval_weight m_weight mi = 1 \<Longrightarrow> sample1 < 1 \<Longrightarrow>
           BlendPhaseFunction_sample m_weight nested0 nested1 ctx mi sample1 sample2 =
             sample nested1 ctx mi sample1 sample2
           \<and> sample_divisors m_weight mi sample1 = [1]"
    and "eval_weight m_weight mi = 0 \<Longrightarrow> 0 < sample1 \<Longrightarrow>
           BlendPhaseFunction_sample m_weight nested0 nested1 ctx mi sample1 sample2 =
             sample nested0 ctx mi sample1 sample2
           \<and> sample_divisors m_weight mi sample1 = [1]"
  using assms
  by (simp_all add: BlendPhaseFunction_sample_def sample_divisors_def sample_masks_def Let_def)

text \<open>
  C5. The claim: under a clamped weight of exactly 0 or 1 and any \<open>sample1\<close> in [0, 1),
  \<^verbatim>\<open>sample\<close> evaluates only the child with non-zero mass, divides by no zero, and
  returns what that child alone returns (child 0 for weight 0). The source at weight 0
  and \<open>sample1 = 0\<close>: the mask \<open>m0\<close> (\<open>0 > 0\<close>) is false and \<open>m1\<close> (\<open>0 \<le> 0\<close>) is true, so
  child 1 is sampled, the division \<open>sample1 / weight\<close> has the divisor 0, and the
  result is child 1's, which differs from child 0's.
\<close>

theorem blend_sample_zero_weight_zero_uniform:
  "eval_weight (\<lambda>mi. 0) mi_z = 0
   \<and> sample_masks 0 (eval_weight (\<lambda>mi. 0) mi_z) = (False, True)
   \<and> sample_divisors (\<lambda>mi. 0) mi_z 0 = [0]
   \<and> BlendPhaseFunction_sample (\<lambda>mi. 0) hg_fwd hg_bwd unrestricted mi_z 0 (1 / 2, 0) =
       sample hg_bwd unrestricted mi_z (0 / 0) (1 / 2, 0)
   \<and> BlendPhaseFunction_sample (\<lambda>mi. 0) hg_fwd hg_bwd unrestricted mi_z 0 (1 / 2, 0) \<noteq>
       sample hg_fwd unrestricted mi_z 0 (1 / 2, 0)"
  by (simp add: BlendPhaseFunction_sample_def sample_divisors_def sample_masks_def Let_def
      eval_weight_def clamp_def HGPhaseFunction_object_def HGPhaseFunction_sample_def
      Point2f_x_def Point2f_y_def sincos_def)

subsection \<open>The Henyey-Greenstein kernel\<close>

lemma hg_base_positive:
  fixes g c :: real
  assumes "\<bar>g\<bar> < 1" and "\<bar>c\<bar> \<le> 1"
  shows "0 < 1 + g * g + 2 * g * c"
proof -
  have "\<bar>g * c\<bar> \<le> \<bar>g\<bar>"
    using assms(2) by (simp add: abs_mult mult_left_le)
  then have "- \<bar>g\<bar> \<le> g * c"
    by linarith
  then have "(1 - \<bar>g\<bar>)\<^sup>2 \<le> 1 + g * g + 2 * g * c"
    by (simp add: power2_eq_square algebra_simps)
  moreover have "0 < (1 - \<bar>g\<bar>)\<^sup>2"
    using assms(1) by simp
  ultimately show ?thesis
    by linarith
qed

lemma times_sqrt_powr:
  fixes t :: real
  assumes "0 < t"
  shows "t * sqrt t = t powr (3 / 2)"
proof -
  have "t powr (3 / 2) = t powr (1 + 1 / 2)"
    by simp
  also have "\<dots> = t powr 1 * t powr (1 / 2)"
    by (rule powr_add)
  also have "\<dots> = t * sqrt t"
    using assms by (simp add: powr_half_sqrt)
  finally show ?thesis by simp
qed

text \<open>
  In exact arithmetic, for \<open>|g| < 1\<close> and a cosine in [-1, 1]: the base
  \<open>1 + g\<^sup>2 + 2 g cos_theta\<close> is positive, so is the divisor \<open>temp * sqrt temp\<close>, and
  \<^verbatim>\<open>eval_hg\<close>, hence \<^verbatim>\<open>eval\<close> at a direction with this cosine to \<^verbatim>\<open>wi\<close>, is
  \<open>1 / (4 pi) * (1 - g\<^sup>2) / (1 + g\<^sup>2 + 2 g cos_theta) powr (3 / 2)\<close>.
\<close>

lemma hg_eval_exact_closed_form:
  assumes "\<bar>g\<bar> < 1" and "- 1 \<le> cos_theta" and "cos_theta \<le> 1"
    and "dot wo (wi mi) = cos_theta"
  shows "0 < 1 + g\<^sup>2 + 2 * g * cos_theta
       \<and> 0 < (1 + g * g + 2 * g * cos_theta) * sqrt (1 + g * g + 2 * g * cos_theta)
       \<and> eval_hg g cos_theta =
           1 / (4 * pi) * (1 - g\<^sup>2) / (1 + g\<^sup>2 + 2 * g * cos_theta) powr (3 / 2)
       \<and> HGPhaseFunction_eval g ctx mi wo =
           1 / (4 * pi) * (1 - g\<^sup>2) / (1 + g\<^sup>2 + 2 * g * cos_theta) powr (3 / 2)"
proof -
  from assms have "\<bar>cos_theta\<bar> \<le> 1" by simp
  from hg_base_positive [OF assms(1) this]
  have pos: "0 < 1 + g * g + 2 * g * cos_theta" .
  have "eval_hg g cos_theta =
      1 / (4 * pi) * (1 - g * g) / (1 + g * g + 2 * g * cos_theta) powr (3 / 2)"
    using times_sqrt_powr [OF pos] by (simp add: eval_hg_def Let_def InvFourPi_def)
  with pos assms(4) show ?thesis
    by (simp add: power2_eq_square HGPhaseFunction_eval_def)
qed

text \<open>Without rounding, the operation-by-operation form is \<^verbatim>\<open>eval_hg\<close> and returns a number.\<close>

lemma eval_hg_fp_exact:
  assumes "\<bar>g\<bar> < 1" and "\<bar>c\<bar> \<le> 1"
  shows "eval_hg_fp (\<lambda>v. v) g c = Some (eval_hg g c)"
proof -
  from hg_base_positive [OF assms]
  have pos: "0 < 1 + g * g + 2 * g * c" .
  then have "0 < (1 + g * g + 2 * g * c) * sqrt (1 + g * g + 2 * g * c)"
    by simp
  with pos show ?thesis
    by (simp add: eval_hg_fp_def eval_hg_def Let_def)
qed

text \<open>
  A number in the binade \<open>[2 ^ e, 2 ^ (e + 1))\<close> is rounded to a multiple of
  \<open>2 ^ (e - (p - 1))\<close>.
\<close>

lemma fp_round_binade:
  assumes "2 powi e \<le> \<bar>v\<bar>" and "\<bar>v\<bar> < 2 powi (e + 1)"
  shows "fp_round p v =
           of_int (round_half_even (v / 2 powi (e - (int p - 1)))) * 2 powi (e - (int p - 1))"
proof -
  have "(0::real) < 2 powi e"
    by (rule zero_less_power_int) simp
  with assms(1) have pos: "0 < \<bar>v\<bar>"
    by linarith
  have lo: "(2::real) powr (of_int e) = 2 powi e"
    by (simp add: powr_real_of_int')
  have "(2::real) powr (of_int (e + 1)) = 2 powi (e + 1)"
    by (rule powr_real_of_int') simp_all
  then have hi: "(2::real) powr (of_int e + 1) = 2 powi (e + 1)"
    by simp
  have "\<lfloor>log 2 \<bar>v\<bar>\<rfloor> = e"
    using assms pos by (simp add: floor_log_eq_powr_iff lo hi)
  with pos show ?thesis
    by (simp add: fp_round_def Let_def)
qed

lemma fp_round_zero: "fp_round p 0 = 0"
  by (simp add: fp_round_def)

text \<open>
  The operations of \<open>temp\<close> in binary32 at \<open>g = 1 - 17 / 2 ^ 24\<close>, the binary32 number
  nearest to 0.999999, and the cosine -1.
\<close>

lemma binary32_stored_g: "binary32 (999999 / 1000000) = 1 - 17 / 2 ^ 24"
  unfolding binary32_def
  by (subst fp_round_binade [where e = "- 1"]) (simp_all add: round_half_even_def Let_def)

lemma binary32_square: "binary32 ((1 - 17 / 2 ^ 24) * (1 - 17 / 2 ^ 24)) = 1 - 34 / 2 ^ 24"
  unfolding binary32_def
  by (subst fp_round_binade [where e = "- 1"]) (simp_all add: round_half_even_def Let_def)

lemma binary32_one_plus: "binary32 (1 + (1 - 34 / 2 ^ 24)) = 2 - 17 / 2 ^ 23"
  unfolding binary32_def
  by (subst fp_round_binade [where e = 0]) (simp_all add: round_half_even_def Let_def)

lemma binary32_twice: "binary32 (2 * (1 - 17 / 2 ^ 24)) = 2 - 17 / 2 ^ 23"
  unfolding binary32_def
  by (subst fp_round_binade [where e = 0]) (simp_all add: round_half_even_def Let_def)

lemma binary32_negate: "binary32 ((2 - 17 / 2 ^ 23) * (- 1)) = - (2 - 17 / 2 ^ 23)"
  unfolding binary32_def
  by (subst fp_round_binade [where e = 0]) (simp_all add: round_half_even_def Let_def)

lemma binary32_fused: "binary32 (1 + (1 - 17 / 2 ^ 24) * (1 - 17 / 2 ^ 24)) = 2 - 17 / 2 ^ 23"
  unfolding binary32_def
  by (subst fp_round_binade [where e = 0]) (simp_all add: round_half_even_def Let_def)

lemma binary32_temp:
  "binary32 (binary32 (1 + binary32 ((1 - 17 / 2 ^ 24) * (1 - 17 / 2 ^ 24)))
             + binary32 (binary32 (2 * (1 - 17 / 2 ^ 24)) * (- 1))) = 0"
  by (simp only: binary32_square binary32_one_plus binary32_twice binary32_negate)
     (simp add: binary32_def fp_round_zero)

text \<open>The same in binary64 at \<open>g = 1 - 1 / 2 ^ 30\<close>.\<close>

lemma binary64_square: "binary64 ((1 - 1 / 2 ^ 30) * (1 - 1 / 2 ^ 30)) = 1 - 1 / 2 ^ 29"
  unfolding binary64_def
  by (subst fp_round_binade [where e = "- 1"]) (simp_all add: round_half_even_def Let_def)

lemma binary64_one_plus: "binary64 (1 + (1 - 1 / 2 ^ 29)) = 2 - 1 / 2 ^ 29"
  unfolding binary64_def
  by (subst fp_round_binade [where e = 0]) (simp_all add: round_half_even_def Let_def)

lemma binary64_twice: "binary64 (2 * (1 - 1 / 2 ^ 30)) = 2 - 1 / 2 ^ 29"
  unfolding binary64_def
  by (subst fp_round_binade [where e = 0]) (simp_all add: round_half_even_def Let_def)

lemma binary64_negate: "binary64 ((2 - 1 / 2 ^ 29) * (- 1)) = - (2 - 1 / 2 ^ 29)"
  unfolding binary64_def
  by (subst fp_round_binade [where e = 0]) (simp_all add: round_half_even_def Let_def)

lemma binary64_temp:
  "binary64 (binary64 (1 + binary64 ((1 - 1 / 2 ^ 30) * (1 - 1 / 2 ^ 30)))
             + binary64 (binary64 (2 * (1 - 1 / 2 ^ 30)) * (- 1))) = 0"
  by (simp only: binary64_square binary64_one_plus binary64_twice binary64_negate)
     (simp add: binary64_def fp_round_zero)

text \<open>
  C6. The claim: for \<open>|g| < 1\<close> and every cosine in [-1, 1], \<^verbatim>\<open>eval\<close> returns
  \<open>1 / (4 pi) * (1 - g\<^sup>2) / (1 + g\<^sup>2 + 2 g cos_theta) powr (3 / 2)\<close>, and the base of the
  denominator is strictly positive, so that \<^verbatim>\<open>eval\<close> is total. The source at
  \<open>g = 0.999999\<close>, which is stored as \<open>1 - 17 / 2 ^ 24\<close> and which the constructor
  accepts, and at the cosine -1: the exact base \<open>(1 - g)\<^sup>2\<close> is positive, but in binary32
  \<open>1 + g * g\<close> rounds to \<open>2 g\<close>, with the product rounded first or fused into the sum,
  so \<open>temp\<close> is 0, the divisor \<open>temp * sqrt temp\<close> is 0, and the division returns no
  number. Binary64 does the same at \<open>g = 1 - 1 / 2 ^ 30\<close>.
\<close>

theorem hg_eval_rounded_base_zero:
  "binary32 (999999 / 1000000) = 1 - 17 / 2 ^ 24
   \<and> \<bar>1 - 17 / 2 ^ 24 :: real\<bar> < 1
   \<and> HGPhaseFunction_ctor (1 / 1000) [(''g'', FloatProperty (1 - 17 / 2 ^ 24))] =
       Inr (HGPhaseFunction_object (1 / 1000) (1 - 17 / 2 ^ 24))
   \<and> (0 :: real) < 1 + (1 - 17 / 2 ^ 24)\<^sup>2 + 2 * (1 - 17 / 2 ^ 24) * (- 1)
   \<and> binary32 (binary32 (1 + binary32 ((1 - 17 / 2 ^ 24) * (1 - 17 / 2 ^ 24)))
               + binary32 (binary32 (2 * (1 - 17 / 2 ^ 24)) * (- 1))) = 0
   \<and> binary32 (binary32 (1 + (1 - 17 / 2 ^ 24) * (1 - 17 / 2 ^ 24))
               + binary32 (2 * (1 - 17 / 2 ^ 24)) * (- 1)) = 0
   \<and> eval_hg_fp binary32 (1 - 17 / 2 ^ 24) (- 1) = None
   \<and> eval_hg_fp binary64 (1 - 1 / 2 ^ 30) (- 1) = None"
proof -
  have ctor: "HGPhaseFunction_ctor (1 / 1000) [(''g'', FloatProperty (1 - 17 / 2 ^ 24))] =
      Inr (HGPhaseFunction_object (1 / 1000) (1 - 17 / 2 ^ 24))"
    by (simp add: HGPhaseFunction_ctor_def Properties_get_float_def)
  have exact: "(0 :: real) < 1 + (1 - 17 / 2 ^ 24)\<^sup>2 + 2 * (1 - 17 / 2 ^ 24) * (- 1)"
    by (simp add: power2_eq_square)
  have fused: "binary32 (binary32 (1 + (1 - 17 / 2 ^ 24) * (1 - 17 / 2 ^ 24))
               + binary32 (2 * (1 - 17 / 2 ^ 24)) * (- 1)) = 0"
    by (simp only: binary32_fused binary32_twice) (simp add: binary32_def fp_round_zero)
  have z32: "binary32 0 = 0" and z64: "binary64 0 = 0"
    by (simp_all add: binary32_def binary64_def fp_round_zero)
  have single: "eval_hg_fp binary32 (1 - 17 / 2 ^ 24) (- 1) = None"
    unfolding eval_hg_fp_def Let_def binary32_temp by (simp add: z32)
  have double: "eval_hg_fp binary64 (1 - 1 / 2 ^ 30) (- 1) = None"
    unfolding eval_hg_fp_def Let_def binary64_temp by (simp add: z64)
  from binary32_stored_g ctor exact binary32_temp fused single double show ?thesis
    by (intro conjI) simp_all
qed

text \<open>
  C7. When \<^verbatim>\<open>to_world\<close> of the interaction is the frame of the incoming direction (the
  cosine of a transformed local direction with \<^verbatim>\<open>wi\<close> is its third local coordinate),
  the density that \<^verbatim>\<open>sample\<close> returns is \<^verbatim>\<open>eval\<close> of the direction it returns, that is
  \<^verbatim>\<open>eval_hg\<close> at the cosine between that direction and \<^verbatim>\<open>wi\<close>; for every \<open>g\<close> and every
  pair of sample coordinates.
\<close>

theorem hg_sample_density_is_eval:
  assumes "\<forall>v. dot (to_world mi v) (wi mi) = Vector3f_z v"
  shows "snd (HGPhaseFunction_sample eps g ctx mi sample1 sample2) =
           HGPhaseFunction_eval g ctx mi (fst (HGPhaseFunction_sample eps g ctx mi sample1 sample2))
       \<and> snd (HGPhaseFunction_sample eps g ctx mi sample1 sample2) =
           eval_hg g (dot (fst (HGPhaseFunction_sample eps g ctx mi sample1 sample2)) (wi mi))"
  using assms
  by (simp add: HGPhaseFunction_sample_def HGPhaseFunction_eval_def Let_def sincos_def
      Vector3f_z_def)

theorem hg_sample_density_is_eval_witness:
  "(\<forall>v. dot (to_world mi_z v) (wi mi_z) = Vector3f_z v)
   \<and> snd (HGPhaseFunction_sample (1 / 1000) (1 / 2) unrestricted mi_z 0 (1 / 2, 0)) =
       HGPhaseFunction_eval (1 / 2) unrestricted mi_z
         (fst (HGPhaseFunction_sample (1 / 1000) (1 / 2) unrestricted mi_z 0 (1 / 2, 0)))"
proof -
  have frame: "\<forall>v. dot (to_world mi_z v) (wi mi_z) = Vector3f_z v"
    by (auto simp: Vector3f_z_def)
  from hg_sample_density_is_eval [OF frame, of "1 / 1000" "1 / 2" unrestricted 0 "(1 / 2, 0)"] frame
  show ?thesis by blast
qed

text \<open>
  C10. \<^verbatim>\<open>sample\<close> of the Henyey-Greenstein kernel does not read \<^verbatim>\<open>sample1\<close>: two calls
  that differ only there return the same pair. So the value that the blend hands to a
  Henyey-Greenstein child is without effect: any \<open>a\<close> and \<open>b\<close> in its place give the
  blend's result.
\<close>

theorem hg_sample_ignores_sample1:
  "HGPhaseFunction_sample eps g ctx mi sample1 sample2 =
     HGPhaseFunction_sample eps g ctx mi sample1' sample2
   \<and> sample (HGPhaseFunction_object eps g) ctx mi sample1 sample2 =
       sample (HGPhaseFunction_object eps g) ctx mi sample1' sample2
   \<and> BlendPhaseFunction_sample m_weight (HGPhaseFunction_object eps g0)
        (HGPhaseFunction_object eps g1) unrestricted mi sample1 sample2 =
       (if sample1 > eval_weight m_weight mi
        then HGPhaseFunction_sample eps g0 unrestricted mi a sample2
        else HGPhaseFunction_sample eps g1 unrestricted mi b sample2)"
  by (simp add: HGPhaseFunction_sample_def HGPhaseFunction_object_def Let_def
      BlendPhaseFunction_sample_def sample_masks_def)

subsection \<open>Construction\<close>

text \<open>
  C8. With a number \<open>g\<close> supplied under the name \<^verbatim>\<open>g\<close>, the constructor of the
  Henyey-Greenstein kernel fails exactly when \<open>g\<close> is outside the open interval (-1, 1),
  and otherwise returns the kernel with this parameter.
\<close>

theorem hg_ctor_fails_iff:
  assumes "map_of props ''g'' = Some (FloatProperty g)"
  shows "(\<exists>e. HGPhaseFunction_ctor eps props = Inl e) = (\<not> (- 1 < g \<and> g < 1))
       \<and> (HGPhaseFunction_ctor eps props = Inr (HGPhaseFunction_object eps g)) = (- 1 < g \<and> g < 1)"
  using assms
  by (auto simp: HGPhaseFunction_ctor_def Properties_get_float_def)

theorem hg_ctor_fails_iff_witness:
  "map_of [(''g'', FloatProperty 1)] ''g'' = Some (FloatProperty 1)
   \<and> (\<exists>e. HGPhaseFunction_ctor (1 / 1000) [(''g'', FloatProperty 1)] = Inl e)
   \<and> (\<exists>e. HGPhaseFunction_ctor (1 / 1000) [(''g'', FloatProperty (- 1))] = Inl e)
   \<and> (\<exists>e. HGPhaseFunction_ctor (1 / 1000) [(''g'', FloatProperty (3 / 2))] = Inl e)
   \<and> HGPhaseFunction_ctor (1 / 1000) [(''g'', FloatProperty (999999 / 1000000))] =
       Inr (HGPhaseFunction_object (1 / 1000) (999999 / 1000000))"
  using hg_ctor_fails_iff [of "[(''g'', FloatProperty 1)]" 1 "1 / 1000"]
    hg_ctor_fails_iff [of "[(''g'', FloatProperty (- 1))]" "- 1" "1 / 1000"]
    hg_ctor_fails_iff [of "[(''g'', FloatProperty (3 / 2))]" "3 / 2" "1 / 1000"]
    hg_ctor_fails_iff [of "[(''g'', FloatProperty (999999 / 1000000))]" "999999 / 1000000"
      "1 / 1000"]
  by simp

text \<open>The first loop counts the phase functions among the nested objects.\<close>

lemma collect_phases_index:
  "collect_phases objs phase_index arr = Inr (j, arr') \<Longrightarrow>
   j = phase_index + length (List.map_filter (dynamic_cast_phase \<circ> snd) objs)"
proof (induction objs phase_index arr rule: collect_phases.induct)
  case (1 phase_index m_nested_phase)
  then show ?case by simp
next
  case (2 name obj rest phase_index m_nested_phase)
  then show ?case
    by (cases "dynamic_cast_phase obj") (auto split: if_splits)
qed

lemma collect_phases_fits:
  "phase_index + length (List.map_filter (dynamic_cast_phase \<circ> snd) objs) \<le> 2 \<Longrightarrow>
   \<exists>r. collect_phases objs phase_index arr = Inr r"
proof (induction objs phase_index arr rule: collect_phases.induct)
  case (1 phase_index m_nested_phase)
  then show ?case by simp
next
  case (2 name obj rest phase_index m_nested_phase)
  then show ?case
    by (cases "dynamic_cast_phase obj") auto
qed

text \<open>The entries of \<^verbatim>\<open>m_nested_phase\<close> below \<^verbatim>\<open>phase_index\<close> are set.\<close>

lemma collect_phases_filled:
  "collect_phases objs phase_index arr = Inr (j, arr') \<Longrightarrow>
   length arr = 2 \<Longrightarrow> phase_index \<le> 2 \<Longrightarrow> (\<forall>i<phase_index. arr ! i \<noteq> None) \<Longrightarrow>
   length arr' = 2 \<and> (\<forall>i<j. arr' ! i \<noteq> None)"
proof (induction objs phase_index arr rule: collect_phases.induct)
  case (1 phase_index m_nested_phase)
  then show ?case by simp
next
  case (2 name obj rest phase_index m_nested_phase)
  show ?case
  proof (cases "dynamic_cast_phase obj")
    case None
    with 2 show ?thesis by simp
  next
    case (Some phase)
    with "2.prems" have ne: "phase_index \<noteq> 2"
      and rec: "collect_phases rest (phase_index + 1) (m_nested_phase[phase_index := Some phase])
                 = Inr (j, arr')"
      by (auto split: if_splits)
    have len: "length (m_nested_phase[phase_index := Some phase]) = 2"
      using "2.prems" by simp
    have le: "phase_index + 1 \<le> 2"
      using ne "2.prems" by simp
    have filled: "\<forall>i<phase_index + 1. m_nested_phase[phase_index := Some phase] ! i \<noteq> None"
      using "2.prems" le by (auto simp: nth_list_update less_Suc_eq)
    from "2.IH"(2) [OF Some ne rec len le filled] show ?thesis .
  qed
qed

text \<open>
  With exactly two child phase functions and a weight, the constructor returns the blend
  of two of the supplied objects under that weight; its last case, a null reference in
  the array, is not reached.
\<close>

lemma blend_ctor_succeeds:
  assumes "length (supplied_phases props) = 2"
    and "Properties_volume props ''weight'' = Inr m_weight"
  shows "\<exists>nested0 nested1. BlendPhaseFunction_ctor props =
           Inr (BlendPhaseFunction_object m_weight nested0 nested1)"
proof -
  from assms(1) collect_phases_fits [of 0 "Properties_objects props" "[None, None]"]
  obtain r where run: "collect_phases (Properties_objects props) 0 [None, None] = Inr r"
    by (auto simp: supplied_phases_def)
  obtain j arr where r: "r = (j, arr)" by (cases r)
  from collect_phases_index [of "Properties_objects props" 0 "[None, None]" j arr] assms(1) run r
  have j: "j = 2"
    by (simp add: supplied_phases_def)
  from collect_phases_filled [of "Properties_objects props" 0 "[None, None]" j arr] run r j
  have "length arr = 2" and "arr ! 0 \<noteq> None" and "arr ! 1 \<noteq> None"
    by simp_all
  then obtain nested0 nested1 where "arr = [Some nested0, Some nested1]"
    by (cases arr; cases "tl arr") (auto simp: length_Suc_conv)
  with assms run r j have "BlendPhaseFunction_ctor props =
      Inr (BlendPhaseFunction_object m_weight nested0 nested1)"
    by (simp add: BlendPhaseFunction_ctor_def)
  then show ?thesis
    by blast
qed

lemma blend_ctor_succeeds_example:
  "BlendPhaseFunction_ctor [(''weight'', FloatProperty (1 / 2)),
      (''a'', ObjectProperty (PhaseObject hg_fwd)), (''b'', ObjectProperty (PhaseObject hg_bwd))] =
   Inr (BlendPhaseFunction_object (\<lambda>mi. 1 / 2) hg_fwd hg_bwd)"
  by (simp add: BlendPhaseFunction_ctor_def Properties_volume_def)

text \<open>
  C9. The constructor of the blend fails, and returns no object, when the property list
  supplies a number of child phase functions other than two, or no entry named
  \<^verbatim>\<open>weight\<close>.
\<close>

theorem blend_ctor_fails:
  assumes "length (supplied_phases props) \<noteq> 2 \<or> map_of props ''weight'' = None"
  shows "\<exists>e. BlendPhaseFunction_ctor props = Inl e"
proof (cases "collect_phases (Properties_objects props) 0 [None, None]")
  case (Inl e)
  then show ?thesis by (simp add: BlendPhaseFunction_ctor_def)
next
  case (Inr r)
  obtain j arr where r: "r = (j, arr)" by (cases r)
  from collect_phases_index [of "Properties_objects props" 0 "[None, None]" j arr] Inr r
  have j: "j = length (supplied_phases props)"
    by (simp add: supplied_phases_def)
  from assms show ?thesis
  proof
    assume "length (supplied_phases props) \<noteq> 2"
    with j Inr r show ?thesis
      by (simp add: BlendPhaseFunction_ctor_def split: sum.splits)
  next
    assume "map_of props ''weight'' = None"
    with Inr r show ?thesis
      by (simp add: BlendPhaseFunction_ctor_def Properties_volume_def)
  qed
qed

theorem blend_ctor_fails_witness:
  "length (supplied_phases
      [(''weight'', FloatProperty (1 / 2)), (''a'', ObjectProperty (PhaseObject hg_fwd))]) \<noteq> 2
   \<and> (\<exists>e. BlendPhaseFunction_ctor
         [(''weight'', FloatProperty (1 / 2)), (''a'', ObjectProperty (PhaseObject hg_fwd))] = Inl e)
   \<and> length (supplied_phases [(''weight'', FloatProperty (1 / 2)),
        (''a'', ObjectProperty (PhaseObject hg_fwd)), (''b'', ObjectProperty (PhaseObject hg_bwd)),
        (''c'', ObjectProperty (PhaseObject hg_fwd))]) \<noteq> 2
   \<and> (\<exists>e. BlendPhaseFunction_ctor [(''weight'', FloatProperty (1 / 2)),
        (''a'', ObjectProperty (PhaseObject hg_fwd)), (''b'', ObjectProperty (PhaseObject hg_bwd)),
        (''c'', ObjectProperty (PhaseObject hg_fwd))] = Inl e)
   \<and> map_of [(''a'', ObjectProperty (PhaseObject hg_fwd)),
        (''b'', ObjectProperty (PhaseObject hg_bwd))] ''weight'' = None
   \<and> (\<exists>e. BlendPhaseFunction_ctor [(''a'', ObjectProperty (PhaseObject hg_fwd)),
        (''b'', ObjectProperty (PhaseObject hg_bwd))] = Inl e)"
  using blend_ctor_fails [of "[(''weight'', FloatProperty (1 / 2)),
        (''a'', ObjectProperty (PhaseObject hg_fwd))]"]
    blend_ctor_fails [of "[(''weight'', FloatProperty (1 / 2)),
        (''a'', ObjectProperty (PhaseObject hg_fwd)), (''b'', ObjectProperty (PhaseObject hg_bwd)),
        (''c'', ObjectProperty (PhaseObject hg_fwd))]"]
    blend_ctor_fails [of "[(''a'', ObjectProperty (PhaseObject hg_fwd)),
        (''b'', ObjectProperty (PhaseObject hg_bwd))]"]
  by (simp add: supplied_phases_def)

end
